theory Spec2Isabelle
  imports Complex_Main "HOL-Library.Word"
begin

section \<open>The window manager of Swarm (Framework/source/Window.cpp)\<close>

text \<open>
  The class \<open>Window\<close> is a singleton around one native window handle, one camera and a
  frames-per-second counter. Everything it does beyond assigning its own members is a call
  into the windowing library (GLFW), the binding layer (GLEW) or the graphics driver. Those
  libraries are not part of the repository. The model therefore records every such call, in
  program order and with the arguments the source passes, in a call history, and takes every
  value that a library returns (the created handle, the result of the binding initialisation,
  the window size, the close-request flag, the clock) as an argument of the operation that
  asks for it. Writes to \<open>std::cout\<close> and \<open>std::cerr\<close> are recorded the same way.

  Numbers: \<open>GLuint\<close> is a 32-bit word, \<open>int\<close> arguments handed to the library are
  integers, and \<open>double\<close>/\<open>float\<close> values are real numbers (rounding is not modelled).
\<close>

subsection \<open>Constants of the library headers\<close>

type_synonym GLuint = "32 word"

definition GL_TRUE :: int where "GL_TRUE = 1"
definition GL_FALSE :: int where "GL_FALSE = 0"
definition GLEW_OK :: int where "GLEW_OK = 0"

definition GLFW_RELEASE :: int where "GLFW_RELEASE = 0"
definition GLFW_PRESS :: int where "GLFW_PRESS = 1"
definition GLFW_REPEAT :: int where "GLFW_REPEAT = 2"

definition GLFW_KEY_A :: int where "GLFW_KEY_A = 65"
definition GLFW_KEY_D :: int where "GLFW_KEY_D = 68"
definition GLFW_KEY_E :: int where "GLFW_KEY_E = 69"
definition GLFW_KEY_Q :: int where "GLFW_KEY_Q = 81"
definition GLFW_KEY_R :: int where "GLFW_KEY_R = 82"
definition GLFW_KEY_S :: int where "GLFW_KEY_S = 83"
definition GLFW_KEY_W :: int where "GLFW_KEY_W = 87"
definition GLFW_KEY_RIGHT :: int where "GLFW_KEY_RIGHT = 262"
definition GLFW_KEY_LEFT :: int where "GLFW_KEY_LEFT = 263"
definition GLFW_KEY_DOWN :: int where "GLFW_KEY_DOWN = 264"
definition GLFW_KEY_UP :: int where "GLFW_KEY_UP = 265"

definition GLFW_SAMPLES :: int where "GLFW_SAMPLES = 135181"
definition GLFW_CONTEXT_VERSION_MAJOR :: int where "GLFW_CONTEXT_VERSION_MAJOR = 139266"
definition GLFW_CONTEXT_VERSION_MINOR :: int where "GLFW_CONTEXT_VERSION_MINOR = 139267"
definition GLFW_OPENGL_PROFILE :: int where "GLFW_OPENGL_PROFILE = 139272"
definition GLFW_OPENGL_CORE_PROFILE :: int where "GLFW_OPENGL_CORE_PROFILE = 204801"

definition GL_DEBUG_OUTPUT :: int where "GL_DEBUG_OUTPUT = 37600"
definition GL_DEBUG_OUTPUT_SYNCHRONOUS :: int where "GL_DEBUG_OUTPUT_SYNCHRONOUS = 33346"
definition GL_DONT_CARE :: int where "GL_DONT_CARE = 4352"

subsection \<open>The camera\<close>

type_synonym vec4 = "real \<times> real \<times> real \<times> real"

fun vscale :: "vec4 \<Rightarrow> real \<Rightarrow> vec4" where
  "vscale (x, y, z, t) k = (x * k, y * k, z * k, t * k)"

fun vadd :: "vec4 \<Rightarrow> vec4 \<Rightarrow> vec4" where
  "vadd (x, y, z, t) (x', y', z', t') = (x + x', y + y', z + z', t + t')"

datatype CameraType = PERSPECTIVE | ORTHOGRAPHIC

text \<open>
  Modelled from the spec: the class \<open>Camera\<close> (Camera.hpp, Camera.cpp) is not among the
  sources. The spec describes it as holding an eye point, an orientation (yaw and pitch
  angles) and projection parameters (projection kind, near/far clip planes, window size),
  with a setter for each, a translation of the eye point, yaw and pitch rotations and a
  reset of the angles.
\<close>

record Camera =
  cameraType :: CameraType
  nearPlane :: real
  farPlane :: real
  windowWidth :: real
  windowHeight :: real
  eyePoint :: vec4
  yawAngle :: real
  pitchAngle :: real

text \<open>Modelled from the spec: window-size setter of the absent \<open>Camera\<close>.\<close>

definition setWindowSize :: "real \<Rightarrow> real \<Rightarrow> Camera \<Rightarrow> Camera" where
  "setWindowSize wd ht c = c\<lparr>windowWidth := wd, windowHeight := ht\<rparr>"

text \<open>Modelled from the spec: eye-point setter of the absent \<open>Camera\<close>.\<close>

definition setEyePoint :: "vec4 \<Rightarrow> Camera \<Rightarrow> Camera" where
  "setEyePoint p c = c\<lparr>eyePoint := p\<rparr>"

text \<open>Modelled from the spec: translate-eye-point of the absent \<open>Camera\<close>.\<close>

definition translateEyePoint :: "vec4 \<Rightarrow> Camera \<Rightarrow> Camera" where
  "translateEyePoint v c = c\<lparr>eyePoint := vadd (eyePoint c) v\<rparr>"

text \<open>Modelled from the spec: yaw rotation of the absent \<open>Camera\<close>.\<close>

definition rotateYaw :: "real \<Rightarrow> Camera \<Rightarrow> Camera" where
  "rotateYaw a c = c\<lparr>yawAngle := yawAngle c + a\<rparr>"

text \<open>Modelled from the spec: pitch rotation of the absent \<open>Camera\<close>.\<close>

definition rotatePitch :: "real \<Rightarrow> Camera \<Rightarrow> Camera" where
  "rotatePitch a c = c\<lparr>pitchAngle := pitchAngle c + a\<rparr>"

text \<open>Modelled from the spec: angle reset of the absent \<open>Camera\<close> (clears yaw and pitch).\<close>

definition resetAngles :: "Camera \<Rightarrow> Camera" where
  "resetAngles c = c\<lparr>yawAngle := 0, pitchAngle := 0\<rparr>"

text \<open>
  Modelled from the spec: the view, horizontal and up direction queries of the absent
  \<open>Camera\<close>. The spec does not say how they are computed, so they are three functions of
  the camera, passed to every operation that can reach the key handler.
\<close>

record Directions =
  viewDirection :: "Camera \<Rightarrow> vec4"
  horizontalDirection :: "Camera \<Rightarrow> vec4"
  upDirection :: "Camera \<Rightarrow> vec4"

subsection \<open>Library calls and console output\<close>

datatype CallbackSlot = KeySlot | WindowSizeSlot | FramebufferSizeSlot | ScrollSlot

text \<open>The static member functions that \<open>open\<close> hands to the library.\<close>

datatype Handler =
  Window_handleKeyEvent
| Window_handleResizeEvent
| Window_handleFramebufferResizeEvent
| Window_scrollCallback

text \<open>
  A window pointer is \<open>None\<close> for \<open>NULL\<close> and \<open>Some h\<close> for the handle \<open>h\<close>. The four
  \<open>glfwSet...Callback\<close> functions are one constructor with the slot they write.
\<close>

datatype NativeCall =
  glfwSetErrorCallback
| glfwWindowHint int int
| glfwCreateWindow int int string
| glfwMakeContextCurrent "nat option"
| glewInit
| glewIsSupported string
| glfwSetCallback CallbackSlot "nat option" "Handler option"
| glfwSwapInterval int
| glEnable int
| glDebugMessageCallback
| glDebugMessageControl int int int
| glfwSetWindowTitle "nat option" string
| glfwSetWindowShouldClose "nat option" int
| glfwGetWindowSize "nat option"
| glfwSwapBuffers "nat option"
| glfwPollEvents
| glfwWindowShouldClose "nat option"
| glfwGetCursorPos "nat option"
| glViewport int int int int

datatype Stream = Cout | Cerr

subsection \<open>The state\<close>

text \<open>
  The members of \<open>Window\<close>, followed by the call history and the console. The members
  \<open>windowTitle_\<close>, \<open>fpsCount_\<close>, \<open>currentTime_\<close> and \<open>lastUpdate_\<close> lose their
  trailing underscore, which a name cannot end with here. The declaration of \<open>fpsCount_\<close>
  is in the absent header Window.hpp and the constructor in Window.cpp does not assign it;
  it is taken to be a 32-bit \<open>int\<close>, held as a 32-bit word whose increment wraps around and
  read as a signed number. (An unsigned counter has a zero value at the same bit pattern.)
\<close>

record Window =
  m_window :: "nat option"
  m_camera :: Camera
  windowTitle :: string
  fpsCount :: "32 word"
  currentTime :: real
  lastUpdate :: real
  calls :: "NativeCall list"
  console :: "(Stream \<times> string) list"

definition call :: "NativeCall \<Rightarrow> Window \<Rightarrow> Window" where
  "call c w = w\<lparr>calls := calls w @ [c]\<rparr>"

definition print :: "Stream \<Rightarrow> string \<Rightarrow> Window \<Rightarrow> Window" where
  "print s line w = w\<lparr>console := console w @ [(s, line)]\<rparr>"

subsection \<open>Window lifecycle\<close>

definition isOpen :: "Window \<Rightarrow> bool" where
  "isOpen w = (m_window w \<noteq> None)"

definition setWindowTitle :: "string \<Rightarrow> Window \<Rightarrow> Window" where
  "setWindowTitle title w =
     (if isOpen w then call (glfwSetWindowTitle (m_window w) title) w else w)"

definition setActive :: "Window \<Rightarrow> Window" where
  "setActive w = (if isOpen w then call (glfwMakeContextCurrent (m_window w)) w else w)"

definition close :: "Window \<Rightarrow> Window" where
  "close w =
     (if isOpen w then
        let w1 = call (glfwSetCallback KeySlot (m_window w) None) w;
            w2 = call (glfwSetCallback WindowSizeSlot (m_window w1) None) w1;
            w3 = call (glfwSetCallback FramebufferSizeSlot (m_window w2) None) w2;
            w4 = call (glfwSetWindowShouldClose (m_window w3) GL_FALSE) w3
        in w4\<lparr>m_window := None\<rparr>
      else w)"

text \<open>What the libraries answer during one \<open>open\<close>.\<close>

record OpenEnv =
  createdWindow :: "nat option"
  glewError :: int
  glewErrorString :: string
  gl33Supported :: bool

definition open_window :: "OpenEnv \<Rightarrow> string \<Rightarrow> GLuint \<Rightarrow> GLuint \<Rightarrow> Window \<Rightarrow> Window" where
  "open_window env title pixelWidth pixelHeight w =
     (if \<not> isOpen w then
        let w1 = call glfwSetErrorCallback w;
            w2 = call (glfwWindowHint GLFW_SAMPLES 4) w1;
            w3 = call (glfwWindowHint GLFW_CONTEXT_VERSION_MAJOR 3) w2;
            w4 = call (glfwWindowHint GLFW_CONTEXT_VERSION_MINOR 3) w3;
            w5 = call (glfwWindowHint GLFW_OPENGL_PROFILE GLFW_OPENGL_CORE_PROFILE) w4;
            w6 = (call (glfwCreateWindow (sint pixelWidth) (sint pixelHeight) title) w5)
                   \<lparr>m_window := createdWindow env\<rparr>;
            w7 = setActive w6;
            w8 = call glewInit w7;
            w9 = (if GLEW_OK \<noteq> glewError env
                  then print Cerr (''Unable to initialize glew library: '' @ glewErrorString env)
                         (close w8)
                  else print Cout (''Glew is initialized for window '' @ title @ ''.'') w8);
            w10 = call (glewIsSupported ''GL_VERSION_3_3'') w9;
            w11 = (if \<not> gl33Supported env
                   then print Cerr ''OpenGL 3.3 is not supported!'' (close w10)
                   else print Cout ''OpenGL 3.3 is supported.'' w10);
            w12 = w11\<lparr>m_camera :=
                    setWindowSize (real (unat pixelWidth)) (real (unat pixelHeight)) (m_camera w11)\<rparr>;
            w13 = call (glfwSetCallback KeySlot (m_window w12) (Some Window_handleKeyEvent)) w12;
            w14 = call (glfwSetCallback WindowSizeSlot (m_window w13)
                          (Some Window_handleResizeEvent)) w13;
            w15 = call (glfwSetCallback FramebufferSizeSlot (m_window w14)
                          (Some Window_handleFramebufferResizeEvent)) w14;
            w16 = call (glfwSetCallback ScrollSlot (m_window w15) (Some Window_scrollCallback)) w15;
            w17 = call (glfwSwapInterval 1) w16;
            w18 = call (glEnable GL_DEBUG_OUTPUT) w17;
            w19 = call (glEnable GL_DEBUG_OUTPUT_SYNCHRONOUS) w18;
            w20 = call glDebugMessageCallback w19;
            w21 = call (glDebugMessageControl GL_DONT_CARE GL_DONT_CARE GL_DONT_CARE) w20
        in w21\<lparr>windowTitle := title\<rparr>
      else w)"

text \<open>
  \<open>getWidth\<close> and \<open>getHeight\<close> take the size the library reports and return the value
  together with the state, whose call history records the query.
\<close>

definition getWidth :: "int \<Rightarrow> Window \<Rightarrow> GLuint \<times> Window" where
  "getWidth width w =
     (if isOpen w then (word_of_int width, call (glfwGetWindowSize (m_window w)) w)
      else (0, w))"

definition getHeight :: "int \<Rightarrow> Window \<Rightarrow> GLuint \<times> Window" where
  "getHeight height w =
     (if isOpen w then (word_of_int height, call (glfwGetWindowSize (m_window w)) w)
      else (0, w))"

text \<open>
  \<open>getCursorPos\<close> passes \<open>m_window\<close> to the library without looking at it, and returns
  whatever the library left in the two local variables.
\<close>

definition getCursorPos :: "real \<times> real \<Rightarrow> Window \<Rightarrow> (real \<times> real) \<times> Window" where
  "getCursorPos xy w = (xy, call (glfwGetCursorPos (m_window w)) w)"

subsection \<open>Input dispatch\<close>

text \<open>
  The member function \<open>handleKeyEvent\<close>. The \<open>switch\<close> over distinct key constants is
  a chain of tests in the order of its cases; the third argument (the modifiers) is unnamed
  in the source.
\<close>

definition handleKeyEvent :: "Directions \<Rightarrow> int \<Rightarrow> int \<Rightarrow> int \<Rightarrow> Window \<Rightarrow> Window" where
  "handleKeyEvent d key action mods w =
     (if isOpen w then
        if GLFW_PRESS = action \<or> GLFW_REPEAT = action then
          let c = m_camera w in
          if key = GLFW_KEY_W then
            w\<lparr>m_camera := translateEyePoint (vscale (viewDirection d c) 10) c\<rparr>
          else if key = GLFW_KEY_S then
            w\<lparr>m_camera := translateEyePoint (vscale (viewDirection d c) (- 10)) c\<rparr>
          else if key = GLFW_KEY_A then
            w\<lparr>m_camera := translateEyePoint (vscale (horizontalDirection d c) 10) c\<rparr>
          else if key = GLFW_KEY_D then
            w\<lparr>m_camera := translateEyePoint (vscale (horizontalDirection d c) (- 10)) c\<rparr>
          else if key = GLFW_KEY_Q then
            w\<lparr>m_camera := translateEyePoint (vscale (upDirection d c) 10) c\<rparr>
          else if key = GLFW_KEY_E then
            w\<lparr>m_camera := translateEyePoint (vscale (upDirection d c) (- 10)) c\<rparr>
          else if key = GLFW_KEY_LEFT then w\<lparr>m_camera := rotateYaw 5 c\<rparr>
          else if key = GLFW_KEY_RIGHT then w\<lparr>m_camera := rotateYaw (- 5) c\<rparr>
          else if key = GLFW_KEY_UP then w\<lparr>m_camera := rotatePitch 5 c\<rparr>
          else if key = GLFW_KEY_DOWN then w\<lparr>m_camera := rotatePitch (- 5) c\<rparr>
          else if key = GLFW_KEY_R then
            w\<lparr>m_camera := resetAngles (setEyePoint (0, 0, 500, 1) c)\<rparr>
          else w
        else w
      else w)"

definition handleResizeEvent :: "GLuint \<Rightarrow> GLuint \<Rightarrow> Window \<Rightarrow> Window" where
  "handleResizeEvent width height w =
     (if isOpen w then
        let w1 = print Cout ''Window resized.'' w
        in w1\<lparr>m_camera := setWindowSize (real (unat width)) (real (unat height)) (m_camera w1)\<rparr>
      else w)"

definition handleFramebufferResizeEvent :: "int \<Rightarrow> int \<Rightarrow> Window \<Rightarrow> Window" where
  "handleFramebufferResizeEvent width height w =
     (if isOpen w then
        call (glViewport 0 0 width height) (print Cout ''Framebuffer resized.'' w)
      else w)"

text \<open>
  The static callbacks fetch the singleton with \<open>getInstance\<close> and forward to its member
  function; the state of the model is that singleton. They ignore the window argument, and
  the key callback ignores the scan code.
\<close>

definition handleKeyEvent_static ::
    "Directions \<Rightarrow> nat option \<Rightarrow> int \<Rightarrow> int \<Rightarrow> int \<Rightarrow> int \<Rightarrow> Window \<Rightarrow> Window" where
  "handleKeyEvent_static d window key scancode action mods w = handleKeyEvent d key action mods w"

definition handleResizeEvent_static :: "nat option \<Rightarrow> int \<Rightarrow> int \<Rightarrow> Window \<Rightarrow> Window" where
  "handleResizeEvent_static window width height w =
     handleResizeEvent (word_of_int width) (word_of_int height) w"

definition handleFramebufferResizeEvent_static ::
    "nat option \<Rightarrow> int \<Rightarrow> int \<Rightarrow> Window \<Rightarrow> Window" where
  "handleFramebufferResizeEvent_static window width height w =
     handleFramebufferResizeEvent width height w"

definition scrollCallback :: "nat option \<Rightarrow> real \<Rightarrow> real \<Rightarrow> Window \<Rightarrow> Window" where
  "scrollCallback window xoffset yoffset w = w"

text \<open>
  One invocation of a registered callback by the library, with the arguments the library
  passes, and the static function it runs.
\<close>

datatype Event =
  KeyEvent "nat option" int int int int
| ResizeEvent "nat option" int int
| FramebufferResizeEvent "nat option" int int
| ScrollEvent "nat option" real real

fun dispatch :: "Directions \<Rightarrow> Event \<Rightarrow> Window \<Rightarrow> Window" where
  "dispatch d (KeyEvent window key scancode action mods) w =
     handleKeyEvent_static d window key scancode action mods w"
| "dispatch d (ResizeEvent window width height) w = handleResizeEvent_static window width height w"
| "dispatch d (FramebufferResizeEvent window width height) w =
     handleFramebufferResizeEvent_static window width height w"
| "dispatch d (ScrollEvent window xoffset yoffset) w = scrollCallback window xoffset yoffset w"

subsection \<open>Per-frame presentation\<close>

text \<open>
  What the library does during one \<open>swapBuffer\<close>: the callbacks it invokes inside
  \<open>glfwPollEvents\<close>, in order, and the value \<open>glfwWindowShouldClose\<close> returns afterwards.
\<close>

record PollEnv =
  delivered :: "Event list"
  shouldClose :: int

definition swapBuffer :: "Directions \<Rightarrow> PollEnv \<Rightarrow> Window \<Rightarrow> Window" where
  "swapBuffer d env w =
     (if isOpen w then
        let w1 = setActive w;
            w2 = call (glfwSwapBuffers (m_window w1)) w1;
            w3 = fold (dispatch d) (delivered env) (call glfwPollEvents w2);
            w4 = call (glfwWindowShouldClose (m_window w3)) w3
        in if GL_TRUE = shouldClose env then close w4 else w4
      else w)"

text \<open>
  A floating-point division. A quotient by a nonzero divisor is \<open>Some\<close> of it. A division
  by zero has no quotient (the language leaves it undefined, IEEE arithmetic yields an
  infinity or a NaN): its value is \<open>None\<close>, and the computation goes on with that value.
\<close>

definition fdiv :: "real \<Rightarrow> real \<Rightarrow> real option" where
  "fdiv a b = (if b = 0 then None else Some (a / b))"

text \<open>The conversion \<open>double( fpsCount_ )\<close>.\<close>

definition to_double :: "32 word \<Rightarrow> real" where
  "to_double c = real_of_int (sint c)"

text \<open>
  \<open>computeFPS\<close> reads the clock twice: \<open>t1\<close> is the reading stored in \<open>currentTime_\<close>,
  \<open>t2\<close> the one stored in \<open>lastUpdate_\<close> when a report is made. The text produced by
  \<open>sprintf_s\<close> with the format \<open>"%s: %3.1f FPS || %3.3f ms/frame"\<close> is \<open>fmt\<close> applied to
  the stored title, the frames per second and the milliseconds per frame, each of them the
  value of a division.
\<close>

definition computeFPS ::
    "(string \<Rightarrow> real option \<Rightarrow> real option \<Rightarrow> string) \<Rightarrow> real \<Rightarrow> real \<Rightarrow> Window \<Rightarrow> Window" where
  "computeFPS fmt t1 t2 w =
     (let w1 = w\<lparr>fpsCount := fpsCount w + 1\<rparr>;
          w2 = w1\<lparr>currentTime := t1\<rparr>;
          timeDiff = currentTime w2 - lastUpdate w2
      in if timeDiff \<ge> 1 then
           let framesPerms = fdiv (timeDiff * 1000) (to_double (fpsCount w2));
               ifps = fdiv (to_double (fpsCount w2)) timeDiff;
               w3 = setWindowTitle (fmt (windowTitle w2) ifps framesPerms) w2;
               w4 = w3\<lparr>fpsCount := 0\<rparr>
           in w4\<lparr>lastUpdate := t2\<rparr>
         else w2)"

definition updateDisplay ::
    "Directions \<Rightarrow> PollEnv \<Rightarrow> (string \<Rightarrow> real option \<Rightarrow> real option \<Rightarrow> string) \<Rightarrow> real \<Rightarrow> real
      \<Rightarrow> Window \<Rightarrow> Window" where
  "updateDisplay d env fmt t1 t2 w = computeFPS fmt t1 t2 (swapBuffer d env w)"

text \<open>A sequence of \<open>computeFPS\<close> calls, one per pair of clock readings.\<close>

fun computeFPS_calls ::
    "(string \<Rightarrow> real option \<Rightarrow> real option \<Rightarrow> string) \<Rightarrow> (real \<times> real) list \<Rightarrow> Window \<Rightarrow> Window" where
  "computeFPS_calls fmt [] w = w"
| "computeFPS_calls fmt ((t1, t2) # ts) w = computeFPS_calls fmt ts (computeFPS fmt t1 t2 w)"

subsection \<open>Reading the call history\<close>

text \<open>
  The handler that the library holds for a slot of a window after a history of calls: each
  \<open>glfwSet...Callback\<close> on that window replaces the previous handler, and \<open>NULL\<close> removes
  it.
\<close>

fun registration :: "CallbackSlot \<Rightarrow> nat \<Rightarrow> NativeCall \<Rightarrow> Handler option \<Rightarrow> Handler option" where
  "registration s h (glfwSetCallback s' p f) r = (if s' = s \<and> p = Some h then f else r)"
| "registration s h c r = r"

definition registered :: "CallbackSlot \<Rightarrow> nat \<Rightarrow> NativeCall list \<Rightarrow> Handler option" where
  "registered s h cs = fold (registration s h) cs None"

text \<open>The calls that \<open>close\<close> makes on the handle it finds in \<open>m_window\<close>.\<close>

fun closeCalls :: "nat option \<Rightarrow> NativeCall list" where
  "closeCalls None = []"
| "closeCalls (Some h) =
     [glfwSetCallback KeySlot (Some h) None,
      glfwSetCallback WindowSizeSlot (Some h) None,
      glfwSetCallback FramebufferSizeSlot (Some h) None,
      glfwSetWindowShouldClose (Some h) GL_FALSE]"

subsection \<open>Concrete inputs\<close>

definition camera0 :: Camera where
  "camera0 = \<lparr>cameraType = PERSPECTIVE, nearPlane = 1, farPlane = 10000,
              windowWidth = 0, windowHeight = 0, eyePoint = (0, 0, 0, 1),
              yawAngle = 30, pitchAngle = 10\<rparr>"

definition window0 :: Window where
  "window0 = \<lparr>m_window = None, m_camera = camera0, windowTitle = [], fpsCount = 0,
              currentTime = 0, lastUpdate = 0, calls = [], console = []\<rparr>"

definition envOk :: OpenEnv where
  "envOk = \<lparr>createdWindow = Some 1, glewError = 0, glewErrorString = ''No error'',
            gl33Supported = True\<rparr>"

definition envGlewFails :: OpenEnv where
  "envGlewFails = \<lparr>createdWindow = Some 1, glewError = 1,
                   glewErrorString = ''Missing GL version'', gl33Supported = True\<rparr>"

definition envNoGl33 :: OpenEnv where
  "envNoGl33 = \<lparr>createdWindow = Some 1, glewError = 0, glewErrorString = ''No error'',
                gl33Supported = False\<rparr>"

definition window1 :: Window where
  "window1 = open_window envOk ''Test'' 800 600 window0"

definition pollKeep :: PollEnv where
  "pollKeep = \<lparr>delivered = [KeyEvent (Some 1) GLFW_KEY_W 17 GLFW_PRESS 0], shouldClose = 0\<rparr>"

definition pollResize :: PollEnv where
  "pollResize = \<lparr>delivered = [FramebufferResizeEvent (Some 1) 1600 1200,
                              ResizeEvent (Some 1) 1024 768,
                              ScrollEvent (Some 1) 0 1], shouldClose = 0\<rparr>"

definition pollClose :: PollEnv where
  "pollClose = \<lparr>delivered = [], shouldClose = 1\<rparr>"

definition dirs0 :: Directions where
  "dirs0 = \<lparr>viewDirection = (\<lambda>c. (0, 0, - 1, 0)),
            horizontalDirection = (\<lambda>c. (1, 0, 0, 0)),
            upDirection = (\<lambda>c. (0, 1, 0, 0))\<rparr>"

definition fmt0 :: "string \<Rightarrow> real option \<Rightarrow> real option \<Rightarrow> string" where
  "fmt0 title ifps framesPerms =
     title @ (case framesPerms of None \<Rightarrow> '': inf'' | Some ms \<Rightarrow> '': FPS'')"

section \<open>Properties\<close>

lemmas key_defs =
  GLFW_KEY_A_def GLFW_KEY_D_def GLFW_KEY_E_def GLFW_KEY_Q_def GLFW_KEY_R_def
  GLFW_KEY_S_def GLFW_KEY_W_def GLFW_KEY_RIGHT_def GLFW_KEY_LEFT_def
  GLFW_KEY_DOWN_def GLFW_KEY_UP_def

lemmas action_defs = GLFW_RELEASE_def GLFW_PRESS_def GLFW_REPEAT_def

subsection \<open>What each step does to each field\<close>

lemma call_fields:
  "m_window (call c w) = m_window w" "m_camera (call c w) = m_camera w"
  "windowTitle (call c w) = windowTitle w" "fpsCount (call c w) = fpsCount w"
  "currentTime (call c w) = currentTime w" "lastUpdate (call c w) = lastUpdate w"
  "calls (call c w) = calls w @ [c]" "console (call c w) = console w"
  by (simp_all add: call_def)

lemma print_fields:
  "m_window (print s l w) = m_window w" "m_camera (print s l w) = m_camera w"
  "windowTitle (print s l w) = windowTitle w" "fpsCount (print s l w) = fpsCount w"
  "currentTime (print s l w) = currentTime w" "lastUpdate (print s l w) = lastUpdate w"
  "calls (print s l w) = calls w" "console (print s l w) = console w @ [(s, l)]"
  by (simp_all add: print_def)

lemma close_fields:
  "m_window (close w) = None" "m_camera (close w) = m_camera w"
  "windowTitle (close w) = windowTitle w" "fpsCount (close w) = fpsCount w"
  "currentTime (close w) = currentTime w" "lastUpdate (close w) = lastUpdate w"
  "calls (close w) = calls w @ closeCalls (m_window w)" "console (close w) = console w"
  by (cases "m_window w"; simp add: close_def isOpen_def Let_def call_def)+

lemma setActive_fields:
  "m_window (setActive w) = m_window w" "m_camera (setActive w) = m_camera w"
  "windowTitle (setActive w) = windowTitle w" "fpsCount (setActive w) = fpsCount w"
  "currentTime (setActive w) = currentTime w" "lastUpdate (setActive w) = lastUpdate w"
  "calls (setActive w) =
     calls w @ (case m_window w of None \<Rightarrow> [] | Some h \<Rightarrow> [glfwMakeContextCurrent (Some h)])"
  "console (setActive w) = console w"
  by (cases "m_window w"; simp add: setActive_def isOpen_def call_def)+

lemmas step_fields = call_fields print_fields close_fields setActive_fields

subsection \<open>Closing\<close>

lemma close_closed: "\<not> isOpen w \<Longrightarrow> close w = w"
  by (simp add: close_def)

lemma close_open:
  "m_window w = Some h \<Longrightarrow>
   close w = w\<lparr>m_window := None,
               calls := calls w @ [glfwSetCallback KeySlot (Some h) None,
                                   glfwSetCallback WindowSizeSlot (Some h) None,
                                   glfwSetCallback FramebufferSizeSlot (Some h) None,
                                   glfwSetWindowShouldClose (Some h) GL_FALSE]\<rparr>"
  by (simp add: close_def isOpen_def call_def Let_def)

lemma isOpen_close: "\<not> isOpen (close w)"
  by (simp add: close_def isOpen_def call_def Let_def)

lemma close_idem: "close (close w) = close w"
  by (simp add: close_closed isOpen_close)

subsection \<open>Callbacks leave the handle alone\<close>

lemma m_window_dispatch: "m_window (dispatch d e w) = m_window w"
  by (cases e)
     (simp_all add: handleKeyEvent_static_def handleKeyEvent_def Let_def
        handleResizeEvent_static_def handleResizeEvent_def print_def
        handleFramebufferResizeEvent_static_def handleFramebufferResizeEvent_def call_def
        scrollCallback_def)

lemma m_window_fold_dispatch: "m_window (fold (dispatch d) es w) = m_window w"
  by (induction es arbitrary: w) (simp_all add: m_window_dispatch)

subsection \<open>Operations on a closed window\<close>

lemma guarded_when_closed:
  assumes "\<not> isOpen w"
  shows "getWidth width w = (0, w)" and "getHeight height w = (0, w)"
    and "setWindowTitle title w = w" and "setActive w = w"
  using assms by (simp_all add: getWidth_def getHeight_def setWindowTitle_def setActive_def)

lemma size_after_close:
  "getWidth width (close w) = (0, close w)" "getHeight height (close w) = (0, close w)"
  by (simp_all add: guarded_when_closed isOpen_close)

text \<open>
  C1. The claim: every accessor or mutator invoked while the window is closed, getCursorPos
  included, is a silent no-op that returns zero or default values and does not touch the
  native window. \<open>getWidth\<close>, \<open>getHeight\<close>, \<open>setWindowTitle\<close> and \<open>setActive\<close> test
  \<open>isOpen\<close> first (\<open>guarded_when_closed\<close>, \<open>size_after_close\<close>); \<open>getCursorPos\<close> does not. On the closed window \<open>window0\<close> it calls
  \<open>glfwGetCursorPos\<close> with the null handle and returns whatever the two local variables
  then hold (here 3 and 4), not a default.
\<close>

theorem getCursorPos_closed_calls_library:
  "\<not> isOpen window0 \<and>
   getCursorPos (3, 4) window0 = ((3, 4), window0\<lparr>calls := [glfwGetCursorPos None]\<rparr>)"
  by (simp add: getCursorPos_def window0_def isOpen_def call_def)

subsection \<open>Swapping buffers\<close>

lemmas static_defs = handleKeyEvent_static_def handleResizeEvent_static_def
  handleFramebufferResizeEvent_static_def scrollCallback_def

lemma dispatch_handlers:
  "dispatch d (KeyEvent win key sc action mods) w = handleKeyEvent d key action mods w"
  "dispatch d (ResizeEvent win wd ht) w = handleResizeEvent (word_of_int wd) (word_of_int ht) w"
  "dispatch d (FramebufferResizeEvent win wd ht) w = handleFramebufferResizeEvent wd ht w"
  "dispatch d (ScrollEvent win x y) w = w"
  by (simp_all add: static_defs)

lemma calls_fold_dispatch:
  "m_window w = Some h \<Longrightarrow>
   calls (fold (dispatch d) es w) =
     calls w @ concat (map (\<lambda>e. case e of
                              FramebufferResizeEvent win wd ht \<Rightarrow> [glViewport 0 0 wd ht]
                            | _ \<Rightarrow> []) es)"
proof (induction es arbitrary: w)
  case Nil
  then show ?case by simp
next
  case (Cons e es)
  have handle': "m_window (dispatch d e w) = Some h"
    using Cons.prems by (simp add: m_window_dispatch)
  have step: "calls (dispatch d e w) =
                calls w @ (case e of FramebufferResizeEvent win wd ht \<Rightarrow> [glViewport 0 0 wd ht]
                           | _ \<Rightarrow> [])"
    using Cons.prems
    by (cases e)
       (simp_all add: static_defs handleKeyEvent_def Let_def handleResizeEvent_def
          handleFramebufferResizeEvent_def isOpen_def call_fields print_fields)
  show ?case
    using Cons.IH [OF handle'] by (simp add: step)
qed

lemma console_fold_dispatch:
  "m_window w = Some h \<Longrightarrow>
   console (fold (dispatch d) es w) =
     console w @ concat (map (\<lambda>e. case e of
                                ResizeEvent win wd ht \<Rightarrow> [(Cout, ''Window resized.'')]
                              | FramebufferResizeEvent win wd ht \<Rightarrow>
                                  [(Cout, ''Framebuffer resized.'')]
                              | _ \<Rightarrow> []) es)"
proof (induction es arbitrary: w)
  case Nil
  then show ?case by simp
next
  case (Cons e es)
  have handle': "m_window (dispatch d e w) = Some h"
    using Cons.prems by (simp add: m_window_dispatch)
  have step: "console (dispatch d e w) =
                console w @ (case e of
                               ResizeEvent win wd ht \<Rightarrow> [(Cout, ''Window resized.'')]
                             | FramebufferResizeEvent win wd ht \<Rightarrow>
                                 [(Cout, ''Framebuffer resized.'')]
                             | _ \<Rightarrow> [])"
    using Cons.prems
    by (cases e)
       (simp_all add: static_defs handleKeyEvent_def Let_def handleResizeEvent_def
          handleFramebufferResizeEvent_def isOpen_def call_fields print_fields)
  show ?case
    using Cons.IH [OF handle'] by (simp add: step)
qed

lemma handleKeyEvent_camera:
  "m_window w' = m_window w \<Longrightarrow>
   m_camera (handleKeyEvent d key action mods w') =
     m_camera (handleKeyEvent d key action mods (w\<lparr>m_camera := m_camera w'\<rparr>))"
  by (simp add: handleKeyEvent_def Let_def isOpen_def)

lemma camera_fold_dispatch:
  "m_window w' = Some h \<Longrightarrow> m_window w = Some h \<Longrightarrow>
   m_camera (fold (dispatch d) es w') =
     fold (\<lambda>e c. case e of
                    KeyEvent win key sc action mods \<Rightarrow>
                      m_camera (handleKeyEvent d key action mods (w\<lparr>m_camera := c\<rparr>))
                  | ResizeEvent win wd ht \<Rightarrow>
                      setWindowSize (real (unat (word_of_int wd :: 32 word)))
                        (real (unat (word_of_int ht :: 32 word))) c
                  | _ \<Rightarrow> c) es (m_camera w')"
proof (induction es arbitrary: w')
  case Nil
  then show ?case by simp
next
  case (Cons e es)
  have handle': "m_window (dispatch d e w') = Some h"
    using Cons.prems by (simp add: m_window_dispatch)
  have same: "m_window w' = m_window w" using Cons.prems by simp
  have step: "m_camera (dispatch d e w') =
                (case e of
                   KeyEvent win key sc action mods \<Rightarrow>
                     m_camera (handleKeyEvent d key action mods (w\<lparr>m_camera := m_camera w'\<rparr>))
                 | ResizeEvent win wd ht \<Rightarrow>
                     setWindowSize (real (unat (word_of_int wd :: 32 word)))
                       (real (unat (word_of_int ht :: 32 word))) (m_camera w')
                 | _ \<Rightarrow> m_camera w')"
    using Cons.prems
    by (cases e)
       (simp_all add: static_defs handleKeyEvent_camera [OF same] handleResizeEvent_def
          Let_def handleFramebufferResizeEvent_def isOpen_def call_fields print_fields)
  show ?case
    using Cons.IH [OF handle' Cons.prems(2)] by (simp add: step)
qed

text \<open>
  C4. \<open>swapBuffer\<close> leaves a closed window as it is. On an open window with handle \<open>h\<close>
  it makes the context current, swaps the buffers, polls the events, then reads the
  close-request flag, and closes the window if and only if the flag reads \<open>GL_TRUE\<close>. None
  of these steps depends on anything but the window being open. Polling runs the callback
  of every event the library delivers, in order: a key event runs the key handler on the
  camera, a resize event writes a console line and sets the camera's window size, a
  framebuffer resize writes a console line and sets the viewport, a scroll event does
  nothing. So the call history, the console and the camera after \<open>swapBuffer\<close> are those
  before it with the effect of each delivered event added in turn; a delivered press of W,
  for one, moves the eye point.
\<close>

theorem swapBuffer_steps:
  "(\<not> isOpen w \<longrightarrow> swapBuffer d env w = w) \<and>
   (m_window w = Some h \<longrightarrow>
      swapBuffer d env w =
        (if shouldClose env = GL_TRUE then close else id)
          (call (glfwWindowShouldClose (Some h))
            (fold (dispatch d) (delivered env)
              (call glfwPollEvents
                (call (glfwSwapBuffers (Some h))
                  (call (glfwMakeContextCurrent (Some h)) w))))) \<and>
      (isOpen (swapBuffer d env w) \<longleftrightarrow> shouldClose env \<noteq> GL_TRUE) \<and>
      calls (swapBuffer d env w) =
        calls w @
        [glfwMakeContextCurrent (Some h), glfwSwapBuffers (Some h), glfwPollEvents] @
        concat (map (\<lambda>e. case e of
                            FramebufferResizeEvent win wd ht \<Rightarrow> [glViewport 0 0 wd ht]
                          | _ \<Rightarrow> []) (delivered env)) @
        [glfwWindowShouldClose (Some h)] @
        (if shouldClose env = GL_TRUE then closeCalls (Some h) else []) \<and>
      console (swapBuffer d env w) =
        console w @
        concat (map (\<lambda>e. case e of
                            ResizeEvent win wd ht \<Rightarrow> [(Cout, ''Window resized.'')]
                          | FramebufferResizeEvent win wd ht \<Rightarrow>
                              [(Cout, ''Framebuffer resized.'')]
                          | _ \<Rightarrow> []) (delivered env)) \<and>
      m_camera (swapBuffer d env w) =
        fold (\<lambda>e c. case e of
                       KeyEvent win key sc action mods \<Rightarrow>
                         m_camera (handleKeyEvent d key action mods (w\<lparr>m_camera := c\<rparr>))
                     | ResizeEvent win wd ht \<Rightarrow>
                         setWindowSize (real (unat (word_of_int wd :: 32 word)))
                           (real (unat (word_of_int ht :: 32 word))) c
                     | _ \<Rightarrow> c) (delivered env) (m_camera w) \<and>
      (delivered env = [KeyEvent win GLFW_KEY_W sc GLFW_PRESS mods] \<longrightarrow>
         m_camera (swapBuffer d env w) =
           (m_camera w)\<lparr>eyePoint :=
              vadd (eyePoint (m_camera w)) (vscale (viewDirection d (m_camera w)) 10)\<rparr>)) \<and>
   dispatch d (KeyEvent win key sc action mods) w = handleKeyEvent d key action mods w \<and>
   dispatch d (ResizeEvent win wd ht) w =
     handleResizeEvent (word_of_int wd) (word_of_int ht) w \<and>
   dispatch d (FramebufferResizeEvent win wd ht) w = handleFramebufferResizeEvent wd ht w \<and>
   dispatch d (ScrollEvent win x y) w = w"
proof (intro conjI impI)
  assume "\<not> isOpen w"
  then show "swapBuffer d env w = w" by (simp add: swapBuffer_def)
next
  assume h: "m_window w = Some h"
  let ?w2 = "call (glfwSwapBuffers (Some h)) (call (glfwMakeContextCurrent (Some h)) w)"
  let ?w3 = "fold (dispatch d) (delivered env) (call glfwPollEvents ?w2)"
  have p: "m_window (call glfwPollEvents ?w2) = Some h"
    using h by (simp add: call_fields)
  have m3: "m_window ?w3 = Some h"
    using h by (simp add: m_window_fold_dispatch call_def)
  show eq: "swapBuffer d env w =
        (if shouldClose env = GL_TRUE then close else id)
          (call (glfwWindowShouldClose (Some h)) ?w3)"
    using h m3
    by (auto simp add: swapBuffer_def isOpen_def setActive_def Let_def call_def)
  show "isOpen (swapBuffer d env w) \<longleftrightarrow> shouldClose env \<noteq> GL_TRUE"
    unfolding eq using m3 by (simp add: isOpen_close) (simp add: isOpen_def call_def)
  show "calls (swapBuffer d env w) =
        calls w @
        [glfwMakeContextCurrent (Some h), glfwSwapBuffers (Some h), glfwPollEvents] @
        concat (map (\<lambda>e. case e of
                            FramebufferResizeEvent win wd ht \<Rightarrow> [glViewport 0 0 wd ht]
                          | _ \<Rightarrow> []) (delivered env)) @
        [glfwWindowShouldClose (Some h)] @
        (if shouldClose env = GL_TRUE then closeCalls (Some h) else [])"
    unfolding eq using m3
    by (simp add: step_fields calls_fold_dispatch [OF p])
  show "console (swapBuffer d env w) =
        console w @
        concat (map (\<lambda>e. case e of
                            ResizeEvent win wd ht \<Rightarrow> [(Cout, ''Window resized.'')]
                          | FramebufferResizeEvent win wd ht \<Rightarrow>
                              [(Cout, ''Framebuffer resized.'')]
                          | _ \<Rightarrow> []) (delivered env))"
    unfolding eq by (simp add: step_fields console_fold_dispatch [OF p])
  show cam: "m_camera (swapBuffer d env w) =
        fold (\<lambda>e c. case e of
                       KeyEvent win key sc action mods \<Rightarrow>
                         m_camera (handleKeyEvent d key action mods (w\<lparr>m_camera := c\<rparr>))
                     | ResizeEvent win wd ht \<Rightarrow>
                         setWindowSize (real (unat (word_of_int wd :: 32 word)))
                           (real (unat (word_of_int ht :: 32 word))) c
                     | _ \<Rightarrow> c) (delivered env) (m_camera w)"
    unfolding eq by (simp add: step_fields camera_fold_dispatch [OF p h])
  show "m_camera (swapBuffer d env w) =
           (m_camera w)\<lparr>eyePoint :=
              vadd (eyePoint (m_camera w)) (vscale (viewDirection d (m_camera w)) 10)\<rparr>"
    if "delivered env = [KeyEvent win GLFW_KEY_W sc GLFW_PRESS mods]"
    unfolding cam using that h
    by (simp add: handleKeyEvent_def Let_def isOpen_def translateEyePoint_def)
qed (simp_all add: static_defs)

subsection \<open>A failed open\<close>

lemma open_fails_handle:
  "\<not> isOpen w \<Longrightarrow> GLEW_OK \<noteq> glewError env \<or> \<not> gl33Supported env \<Longrightarrow>
   m_window (open_window env title pw ph w) = None"
  by (auto simp add: open_window_def Let_def step_fields)

lemma open_fails_glew_logged:
  "\<not> isOpen w \<Longrightarrow> GLEW_OK \<noteq> glewError env \<Longrightarrow>
   (Cerr, ''Unable to initialize glew library: '' @ glewErrorString env)
     \<in> set (console (open_window env title pw ph w))"
  by (simp add: open_window_def Let_def step_fields)

lemma open_fails_version_logged:
  "\<not> isOpen w \<Longrightarrow> \<not> gl33Supported env \<Longrightarrow>
   (Cerr, ''OpenGL 3.3 is not supported!'') \<in> set (console (open_window env title pw ph w))"
  by (simp add: open_window_def Let_def step_fields)

lemma open_fails_close_calls:
  "\<not> isOpen w \<Longrightarrow> GLEW_OK \<noteq> glewError env \<or> \<not> gl33Supported env \<Longrightarrow>
   set (closeCalls (createdWindow env)) \<subseteq> set (calls (open_window env title pw ph w))"
  by (cases "createdWindow env") (auto simp add: open_window_def Let_def step_fields)

lemma open_title: "\<not> isOpen w \<Longrightarrow> windowTitle (open_window env title pw ph w) = title"
  by (simp add: open_window_def Let_def step_fields)

lemma open_camera:
  "\<not> isOpen w \<Longrightarrow>
   m_camera (open_window env title pw ph w) =
     setWindowSize (real (unat pw)) (real (unat ph)) (m_camera w)"
  by (simp add: open_window_def Let_def step_fields)

lemma open_fails_tail:
  "\<not> isOpen w \<Longrightarrow> GLEW_OK \<noteq> glewError env \<or> \<not> gl33Supported env \<Longrightarrow>
   \<exists>cs. calls (open_window env title pw ph w) =
      cs @ [glfwSetCallback KeySlot None (Some Window_handleKeyEvent),
            glfwSetCallback WindowSizeSlot None (Some Window_handleResizeEvent),
            glfwSetCallback FramebufferSizeSlot None (Some Window_handleFramebufferResizeEvent),
            glfwSetCallback ScrollSlot None (Some Window_scrollCallback),
            glfwSwapInterval 1,
            glEnable GL_DEBUG_OUTPUT,
            glEnable GL_DEBUG_OUTPUT_SYNCHRONOUS,
            glDebugMessageCallback,
            glDebugMessageControl GL_DONT_CARE GL_DONT_CARE GL_DONT_CARE]"
  by (auto simp add: open_window_def Let_def step_fields)

lemma registered_append:
  "registered s h (cs @ cs') = fold (registration s h) cs' (registered s h cs)"
  by (simp add: registered_def)

lemma open_fails_nothing_registered:
  assumes closed: "\<not> isOpen w" and fails: "GLEW_OK \<noteq> glewError env \<or> \<not> gl33Supported env"
    and made: "createdWindow env = Some h" and fresh: "\<forall>s. registered s h (calls w) = None"
  shows "registered s h (calls (open_window env title pw ph w)) = None"
  using closed fails made fresh
  by (auto simp add: open_window_def Let_def step_fields registered_append)

lemma window1_fields:
  "m_window window1 = Some 1" "windowTitle window1 = ''Test''" "fpsCount window1 = 0"
  "currentTime window1 = 0" "lastUpdate window1 = 0"
  "m_camera window1 = camera0\<lparr>windowWidth := 800, windowHeight := 600\<rparr>"
  by (simp_all add: window1_def open_window_def Let_def step_fields envOk_def window0_def
        isOpen_def GLEW_OK_def setWindowSize_def)


text \<open>
  C2, as stated: after a failed initialisation \<open>open\<close> leaves no open-window state and no
  partially initialised window behind. With \<open>glewInit\<close> failing on the closed window
  \<open>window0\<close>, the window is closed when \<open>open\<close> returns, but the history shows what is
  left: the window that was created is never destroyed and its context, made current before
  the failure, is never released (\<open>close\<close> has no such calls); and, since \<open>open\<close> does not
  return after \<open>close\<close>, the swap interval, the debug output and the debug callback are set
  after the forced close, the four handlers are handed to the library with a null window,
  the camera takes the window size and the stored title is replaced.
\<close>

theorem open_failure_leaves_state:
  "\<not> isOpen window0 \<and> GLEW_OK \<noteq> glewError envGlewFails \<and>
   \<not> isOpen (open_window envGlewFails ''Test'' 800 600 window0) \<and>
   calls (open_window envGlewFails ''Test'' 800 600 window0) =
     [glfwSetErrorCallback,
      glfwWindowHint GLFW_SAMPLES 4,
      glfwWindowHint GLFW_CONTEXT_VERSION_MAJOR 3,
      glfwWindowHint GLFW_CONTEXT_VERSION_MINOR 3,
      glfwWindowHint GLFW_OPENGL_PROFILE GLFW_OPENGL_CORE_PROFILE,
      glfwCreateWindow 800 600 ''Test'',
      glfwMakeContextCurrent (Some 1),
      glewInit,
      glfwSetCallback KeySlot (Some 1) None,
      glfwSetCallback WindowSizeSlot (Some 1) None,
      glfwSetCallback FramebufferSizeSlot (Some 1) None,
      glfwSetWindowShouldClose (Some 1) GL_FALSE,
      glewIsSupported ''GL_VERSION_3_3'',
      glfwSetCallback KeySlot None (Some Window_handleKeyEvent),
      glfwSetCallback WindowSizeSlot None (Some Window_handleResizeEvent),
      glfwSetCallback FramebufferSizeSlot None (Some Window_handleFramebufferResizeEvent),
      glfwSetCallback ScrollSlot None (Some Window_scrollCallback),
      glfwSwapInterval 1,
      glEnable GL_DEBUG_OUTPUT,
      glEnable GL_DEBUG_OUTPUT_SYNCHRONOUS,
      glDebugMessageCallback,
      glDebugMessageControl GL_DONT_CARE GL_DONT_CARE GL_DONT_CARE] \<and>
   windowTitle window0 = [] \<and>
   windowTitle (open_window envGlewFails ''Test'' 800 600 window0) = ''Test'' \<and>
   windowWidth (m_camera window0) = 0 \<and>
   windowWidth (m_camera (open_window envGlewFails ''Test'' 800 600 window0)) = 800 \<and>
   windowHeight (m_camera (open_window envGlewFails ''Test'' 800 600 window0)) = 600"
  by (simp add: open_window_def Let_def step_fields envGlewFails_def window0_def isOpen_def
        GLEW_OK_def setWindowSize_def camera0_def)

text \<open>
  C2, amended. When \<open>open\<close> runs on a closed window and the binding layer fails to
  initialise or OpenGL 3.3 is not supported, the failure is written to \<open>std::cerr\<close>,
  \<open>close\<close> runs on the handle that was created (its four calls are in the history), the
  window is closed when \<open>open\<close> returns, and if the library held no handler for the created
  window before, it holds none afterwards. The initialisation is only attempted when the
  window is closed on entry, which is the first hypothesis.
\<close>

theorem open_failure_closes_window:
  assumes closed: "\<not> isOpen w" and fails: "GLEW_OK \<noteq> glewError env \<or> \<not> gl33Supported env"
  shows "\<not> isOpen (open_window env title pw ph w) \<and>
   (GLEW_OK \<noteq> glewError env \<longrightarrow>
      (Cerr, ''Unable to initialize glew library: '' @ glewErrorString env)
        \<in> set (console (open_window env title pw ph w))) \<and>
   (\<not> gl33Supported env \<longrightarrow>
      (Cerr, ''OpenGL 3.3 is not supported!'') \<in> set (console (open_window env title pw ph w))) \<and>
   set (closeCalls (createdWindow env)) \<subseteq> set (calls (open_window env title pw ph w)) \<and>
   (\<forall>h. createdWindow env = Some h \<and> (\<forall>s. registered s h (calls w) = None) \<longrightarrow>
      (\<forall>s. registered s h (calls (open_window env title pw ph w)) = None))"
  using open_fails_handle [OF closed fails] open_fails_glew_logged [OF closed]
    open_fails_version_logged [OF closed] open_fails_close_calls [OF closed fails]
    open_fails_nothing_registered [OF closed fails]
  by (simp add: isOpen_def del: closeCalls.simps)

theorem open_failure_closes_window_witness:
  "\<not> isOpen window0 \<and> GLEW_OK \<noteq> glewError envGlewFails \<and>
   \<not> isOpen (open_window envGlewFails ''Test'' 800 600 window0) \<and>
   (Cerr, ''Unable to initialize glew library: Missing GL version'')
     \<in> set (console (open_window envGlewFails ''Test'' 800 600 window0)) \<and>
   glfwSetWindowShouldClose (Some 1) GL_FALSE
     \<in> set (calls (open_window envGlewFails ''Test'' 800 600 window0)) \<and>
   registered ScrollSlot 1 (calls (open_window envGlewFails ''Test'' 800 600 window0)) = None"
  using open_failure_closes_window [of window0 envGlewFails "''Test''" 800 600]
  by (simp add: window0_def envGlewFails_def isOpen_def GLEW_OK_def registered_def)

text \<open>
  C10. After such a failure \<open>open\<close> still runs to its end: the camera receives the window
  size, the four callbacks are registered with the null handle that \<open>close\<close> left behind,
  the swap interval and the debug output are set, and the stored base title becomes the new
  title, although the window is closed.
\<close>

theorem open_failure_continues:
  assumes closed: "\<not> isOpen w" and fails: "GLEW_OK \<noteq> glewError env \<or> \<not> gl33Supported env"
  shows "\<not> isOpen (open_window env title pw ph w) \<and>
   windowTitle (open_window env title pw ph w) = title \<and>
   m_camera (open_window env title pw ph w) =
     setWindowSize (real (unat pw)) (real (unat ph)) (m_camera w) \<and>
   (\<exists>cs. calls (open_window env title pw ph w) =
      cs @ [glfwSetCallback KeySlot None (Some Window_handleKeyEvent),
            glfwSetCallback WindowSizeSlot None (Some Window_handleResizeEvent),
            glfwSetCallback FramebufferSizeSlot None (Some Window_handleFramebufferResizeEvent),
            glfwSetCallback ScrollSlot None (Some Window_scrollCallback),
            glfwSwapInterval 1,
            glEnable GL_DEBUG_OUTPUT,
            glEnable GL_DEBUG_OUTPUT_SYNCHRONOUS,
            glDebugMessageCallback,
            glDebugMessageControl GL_DONT_CARE GL_DONT_CARE GL_DONT_CARE])"
  using open_fails_tail [OF closed fails] open_fails_handle [OF closed fails]
    open_title [OF closed] open_camera [OF closed]
  by (simp add: isOpen_def)

theorem open_failure_continues_witness:
  "\<not> isOpen window0 \<and> \<not> gl33Supported envNoGl33 \<and>
   \<not> isOpen (open_window envNoGl33 ''Test'' 800 600 window0) \<and>
   windowTitle window0 = [] \<and>
   windowTitle (open_window envNoGl33 ''Test'' 800 600 window0) = ''Test'' \<and>
   windowWidth (m_camera (open_window envNoGl33 ''Test'' 800 600 window0)) = 800"
  using open_failure_continues [of window0 envNoGl33 "''Test''" 800 600]
  by (simp add: window0_def envNoGl33_def isOpen_def GLEW_OK_def setWindowSize_def)

subsection \<open>Closing an open window\<close>

text \<open>
  C3. The claim: \<open>close\<close> on an open window unregisters all four callbacks that \<open>open\<close>
  registered. \<open>open\<close> registers key, window-size, framebuffer-size and scroll handlers;
  \<open>close\<close> resets the first three and leaves the scroll slot alone. After a successful
  \<open>open\<close> followed by \<open>close\<close>, the window is closed, the key slot of window 1 is empty
  and its scroll slot still holds \<open>Window::scrollCallback\<close>. (That \<open>close\<close> does nothing on
  a closed window and is idempotent is \<open>close_closed\<close> and \<open>close_idem\<close>.)
\<close>

theorem close_keeps_scroll_callback:
  "isOpen (open_window envOk ''Test'' 800 600 window0) \<and>
   registered ScrollSlot 1 (calls (open_window envOk ''Test'' 800 600 window0))
     = Some Window_scrollCallback \<and>
   \<not> isOpen (close (open_window envOk ''Test'' 800 600 window0)) \<and>
   registered KeySlot 1 (calls (close (open_window envOk ''Test'' 800 600 window0))) = None \<and>
   registered ScrollSlot 1 (calls (close (open_window envOk ''Test'' 800 600 window0)))
     = Some Window_scrollCallback"
  by (simp add: open_window_def Let_def step_fields envOk_def window0_def isOpen_def GLEW_OK_def
      registered_def)

subsection \<open>Swapping buffers, at concrete inputs\<close>

theorem swapBuffer_steps_witness:
  "\<not> isOpen window0 \<and> swapBuffer dirs0 pollClose window0 = window0 \<and>
   m_window window1 = Some 1 \<and>
   \<not> isOpen (swapBuffer dirs0 pollClose window1) \<and>
   isOpen (swapBuffer dirs0 pollKeep window1) \<and>
   eyePoint (m_camera window1) = (0, 0, 0, 1) \<and>
   eyePoint (m_camera (swapBuffer dirs0 pollKeep window1)) = (0, 0, - 10, 1) \<and>
   calls (swapBuffer dirs0 pollResize window1) =
     calls window1 @
     [glfwMakeContextCurrent (Some 1), glfwSwapBuffers (Some 1), glfwPollEvents,
      glViewport 0 0 1600 1200, glfwWindowShouldClose (Some 1)] \<and>
   console (swapBuffer dirs0 pollResize window1) =
     console window1 @ [(Cout, ''Framebuffer resized.''), (Cout, ''Window resized.'')] \<and>
   windowWidth (m_camera (swapBuffer dirs0 pollResize window1)) = 1024"
proof -
  have closed: "\<not> isOpen window0" by (simp add: window0_def isOpen_def)
  have opened: "m_window window1 = Some 1" by (simp add: window1_fields)
  from swapBuffer_steps [of window0 dirs0 pollClose 1] closed
  have same: "swapBuffer dirs0 pollClose window0 = window0" by blast
  from swapBuffer_steps [of window1 dirs0 pollClose 1] opened
  have "isOpen (swapBuffer dirs0 pollClose window1) \<longleftrightarrow> shouldClose pollClose \<noteq> GL_TRUE"
    by blast
  then have shut: "\<not> isOpen (swapBuffer dirs0 pollClose window1)"
    by (simp add: pollClose_def GL_TRUE_def)
  have keep: "delivered pollKeep = [KeyEvent (Some 1) GLFW_KEY_W 17 GLFW_PRESS 0]"
    by (simp add: pollKeep_def)
  from swapBuffer_steps [of window1 dirs0 pollKeep 1 "Some 1" 17 0] opened keep
  have kept: "isOpen (swapBuffer dirs0 pollKeep window1) \<longleftrightarrow> shouldClose pollKeep \<noteq> GL_TRUE"
    and moved: "m_camera (swapBuffer dirs0 pollKeep window1) =
           (m_camera window1)\<lparr>eyePoint :=
              vadd (eyePoint (m_camera window1))
                (vscale (viewDirection dirs0 (m_camera window1)) 10)\<rparr>"
    by blast+
  from swapBuffer_steps [of window1 dirs0 pollResize 1] opened
  have history: "calls (swapBuffer dirs0 pollResize window1) =
        calls window1 @
        [glfwMakeContextCurrent (Some 1), glfwSwapBuffers (Some 1), glfwPollEvents] @
        concat (map (\<lambda>e. case e of
                            FramebufferResizeEvent win wd ht \<Rightarrow> [glViewport 0 0 wd ht]
                          | _ \<Rightarrow> []) (delivered pollResize)) @
        [glfwWindowShouldClose (Some 1)] @
        (if shouldClose pollResize = GL_TRUE then closeCalls (Some 1) else [])"
    and lines: "console (swapBuffer dirs0 pollResize window1) =
        console window1 @
        concat (map (\<lambda>e. case e of
                            ResizeEvent win wd ht \<Rightarrow> [(Cout, ''Window resized.'')]
                          | FramebufferResizeEvent win wd ht \<Rightarrow>
                              [(Cout, ''Framebuffer resized.'')]
                          | _ \<Rightarrow> []) (delivered pollResize))"
    and camera: "m_camera (swapBuffer dirs0 pollResize window1) =
        fold (\<lambda>e c. case e of
                       KeyEvent win key sc action mods \<Rightarrow>
                         m_camera (handleKeyEvent dirs0 key action mods (window1\<lparr>m_camera := c\<rparr>))
                     | ResizeEvent win wd ht \<Rightarrow>
                         setWindowSize (real (unat (word_of_int wd :: 32 word)))
                           (real (unat (word_of_int ht :: 32 word))) c
                     | _ \<Rightarrow> c) (delivered pollResize) (m_camera window1)"
    by blast+
  from kept have stays: "isOpen (swapBuffer dirs0 pollKeep window1)"
    by (simp add: pollKeep_def GL_TRUE_def)
  have start: "eyePoint (m_camera window1) = (0, 0, 0, 1)"
    by (simp add: window1_fields camera0_def)
  have eye: "eyePoint (m_camera (swapBuffer dirs0 pollKeep window1)) = (0, 0, - 10, 1)"
    unfolding moved by (simp add: window1_fields camera0_def dirs0_def)
  have history': "calls (swapBuffer dirs0 pollResize window1) =
     calls window1 @
     [glfwMakeContextCurrent (Some 1), glfwSwapBuffers (Some 1), glfwPollEvents,
      glViewport 0 0 1600 1200, glfwWindowShouldClose (Some 1)]"
    unfolding history by (simp add: pollResize_def GL_TRUE_def)
  have lines': "console (swapBuffer dirs0 pollResize window1) =
     console window1 @ [(Cout, ''Framebuffer resized.''), (Cout, ''Window resized.'')]"
    unfolding lines by (simp add: pollResize_def)
  have width: "windowWidth (m_camera (swapBuffer dirs0 pollResize window1)) = 1024"
    unfolding camera by (simp add: pollResize_def setWindowSize_def)
  from closed same opened shut stays start eye history' lines' width
  show ?thesis by blast
qed

subsection \<open>The frame counter\<close>

lemma to_double_eq_0: "to_double c = 0 \<longleftrightarrow> c = 0"
  by (simp add: to_double_def signed_eq_0_iff)

lemma all_ones_wraps: "c + 1 = 0 \<longleftrightarrow> c = (- 1 :: 32 word)"
  by (simp add: add_eq_0_iff2)

lemma computeFPS_below:
  "t1 - lastUpdate w < 1 \<Longrightarrow>
   computeFPS fmt t1 t2 w = w\<lparr>fpsCount := fpsCount w + 1, currentTime := t1\<rparr>"
  by (simp add: computeFPS_def Let_def)

lemma computeFPS_report:
  "1 \<le> t1 - lastUpdate w \<Longrightarrow>
   computeFPS fmt t1 t2 w =
     (setWindowTitle
        (fmt (windowTitle w) (fdiv (to_double (fpsCount w + 1)) (t1 - lastUpdate w))
           (fdiv ((t1 - lastUpdate w) * 1000) (to_double (fpsCount w + 1))))
        (w\<lparr>fpsCount := fpsCount w + 1, currentTime := t1\<rparr>))
      \<lparr>fpsCount := 0, lastUpdate := t2\<rparr>"
  by (simp add: computeFPS_def Let_def)

lemma computeFPS_calls_append:
  "computeFPS_calls fmt (xs @ ys) w = computeFPS_calls fmt ys (computeFPS_calls fmt xs w)"
  by (induction xs arbitrary: w) auto

lemma computeFPS_calls_below:
  "\<forall>(t1, t2) \<in> set ts. t1 - lastUpdate w < 1 \<Longrightarrow>
   computeFPS_calls fmt ts w =
     w\<lparr>fpsCount := fpsCount w + of_nat (length ts),
       currentTime := last (currentTime w # map fst ts)\<rparr>"
proof (induction ts arbitrary: w)
  case Nil
  then show ?case by simp
next
  case (Cons p ts)
  obtain t1 t2 where p: "p = (t1, t2)" by (cases p)
  let ?w' = "w\<lparr>fpsCount := fpsCount w + 1, currentTime := t1\<rparr>"
  from Cons.prems p have below: "t1 - lastUpdate w < 1" by simp
  from Cons.prems have rest: "\<forall>(t1, t2) \<in> set ts. t1 - lastUpdate ?w' < 1" by simp
  show ?case
    using Cons.IH [OF rest] by (simp add: p computeFPS_below [OF below] add.assoc)
qed

text \<open>
  C6, as stated: \<open>computeFPS\<close> never divides by zero, in every reachable state. The body
  has no test of the counter and no fallback value; it divides by the counter after
  incrementing it. With the counter at \<open>-1\<close> on entry (a value the member can hold, since
  Window.cpp never initialises it, and the value that 4294967295 calls within one second
  lead to from 0 when the increment wraps around), the increment gives 0, and a call at a
  reporting instant divides the elapsed milliseconds by zero: the milliseconds per frame
  handed to the title text are the value of a division by zero.
\<close>

theorem computeFPS_divides_by_zero:
  "fpsCount (window1\<lparr>fpsCount := - 1\<rparr>) + 1 = 0 \<and>
   1 \<le> 1 - lastUpdate (window1\<lparr>fpsCount := - 1\<rparr>) \<and>
   fdiv ((1 - lastUpdate window1) * 1000) (to_double (fpsCount (window1\<lparr>fpsCount := - 1\<rparr>) + 1))
     = None \<and>
   computeFPS fmt0 1 2 (window1\<lparr>fpsCount := - 1\<rparr>) =
     window1\<lparr>fpsCount := 0, currentTime := 1, lastUpdate := 2,
       calls := calls window1 @ [glfwSetWindowTitle (Some 1) (fmt0 ''Test'' (Some 0) None)]\<rparr> \<and>
   computeFPS_calls fmt0 (replicate 4294967295 (0, 0) @ [(1, 2)]) window1 =
     window1\<lparr>fpsCount := 0, currentTime := 1, lastUpdate := 2,
       calls := calls window1 @ [glfwSetWindowTitle (Some 1) (fmt0 ''Test'' (Some 0) None)]\<rparr>"
proof -
  have below: "\<forall>(t1, t2) \<in> set (replicate 4294967295 (0, 0)). t1 - lastUpdate window1 < 1"
    by (simp add: window1_fields)
  have run: "computeFPS_calls fmt0 (replicate 4294967295 (0, 0)) window1 =
               window1\<lparr>fpsCount := - 1, currentTime := 0\<rparr>"
    by (simp add: computeFPS_calls_below [OF below] window1_fields)
  have last_call: "computeFPS fmt0 1 2 (window1\<lparr>fpsCount := - 1, currentTime := c\<rparr>) =
     window1\<lparr>fpsCount := 0, currentTime := 1, lastUpdate := 2,
       calls := calls window1 @ [glfwSetWindowTitle (Some 1) (fmt0 ''Test'' (Some 0) None)]\<rparr>" for c
    by (simp add: computeFPS_report window1_fields setWindowTitle_def isOpen_def call_def
          fdiv_def to_double_def)
  have direct: "computeFPS fmt0 1 2 (window1\<lparr>fpsCount := - 1\<rparr>) =
     window1\<lparr>fpsCount := 0, currentTime := 1, lastUpdate := 2,
       calls := calls window1 @ [glfwSetWindowTitle (Some 1) (fmt0 ''Test'' (Some 0) None)]\<rparr>"
    by (simp add: computeFPS_report window1_fields setWindowTitle_def isOpen_def call_def
          fdiv_def to_double_def)
  have whole: "computeFPS_calls fmt0 (replicate 4294967295 (0, 0) @ [(1, 2)]) window1 =
     window1\<lparr>fpsCount := 0, currentTime := 1, lastUpdate := 2,
       calls := calls window1 @ [glfwSetWindowTitle (Some 1) (fmt0 ''Test'' (Some 0) None)]\<rparr>"
    by (simp only: computeFPS_calls_append run computeFPS_calls.simps last_call)
  have quotient: "fdiv ((1 - lastUpdate window1) * 1000)
                    (to_double (fpsCount (window1\<lparr>fpsCount := - 1\<rparr>) + 1)) = None"
    by (simp add: fdiv_def to_double_def)
  show ?thesis
    using direct whole quotient by (simp add: window1_fields)
qed

text \<open>
  C6, amended: when the counter is not \<open>-1\<close> on entry, \<open>computeFPS\<close> does not divide by
  zero. The counter is incremented before it is used, so the first divisor is not zero (it
  is 1 when the counter was 0 on entry), and the elapsed time is a divisor only in the
  branch where it is at least 1. Both divisions of a reporting call have a quotient, and
  these quotients are what the title text is made of; a call that does not report does not
  divide.
\<close>

theorem computeFPS_divisors_nonzero:
  assumes counter: "fpsCount w \<noteq> - 1"
  shows "to_double (fpsCount w + 1) \<noteq> 0 \<and>
    (fpsCount w = 0 \<longrightarrow> to_double (fpsCount w + 1) = 1) \<and>
    (1 \<le> t1 - lastUpdate w \<longrightarrow>
       fdiv ((t1 - lastUpdate w) * 1000) (to_double (fpsCount w + 1)) =
         Some ((t1 - lastUpdate w) * 1000 / to_double (fpsCount w + 1)) \<and>
       fdiv (to_double (fpsCount w + 1)) (t1 - lastUpdate w) =
         Some (to_double (fpsCount w + 1) / (t1 - lastUpdate w)) \<and>
       computeFPS fmt t1 t2 w =
         (setWindowTitle
            (fmt (windowTitle w) (Some (to_double (fpsCount w + 1) / (t1 - lastUpdate w)))
               (Some ((t1 - lastUpdate w) * 1000 / to_double (fpsCount w + 1))))
            (w\<lparr>fpsCount := fpsCount w + 1, currentTime := t1\<rparr>))
          \<lparr>fpsCount := 0, lastUpdate := t2\<rparr>) \<and>
    (t1 - lastUpdate w < 1 \<longrightarrow>
       computeFPS fmt t1 t2 w = w\<lparr>fpsCount := fpsCount w + 1, currentTime := t1\<rparr>)"
proof -
  have divisor: "to_double (fpsCount w + 1) \<noteq> 0"
    using counter by (simp add: to_double_eq_0 all_ones_wraps)
  have one: "fpsCount w = 0 \<longrightarrow> to_double (fpsCount w + 1) = 1"
    by (simp add: to_double_def)
  show ?thesis
    using divisor one by (auto simp add: computeFPS_report computeFPS_below fdiv_def)
qed

theorem computeFPS_divisors_nonzero_witness:
  "fpsCount window1 \<noteq> - 1 \<and> fpsCount window1 = 0 \<and> 1 \<le> 2 - lastUpdate window1 \<and>
   fdiv ((2 - lastUpdate window1) * 1000) (to_double (fpsCount window1 + 1)) = Some 2000 \<and>
   fdiv (to_double (fpsCount window1 + 1)) (2 - lastUpdate window1) = Some (1 / 2) \<and>
   computeFPS fmt0 2 3 window1 =
     window1\<lparr>fpsCount := 0, currentTime := 2, lastUpdate := 3,
       calls := calls window1 @ [glfwSetWindowTitle (Some 1) (fmt0 ''Test'' (Some (1 / 2)) (Some 2000))]\<rparr>"
  using computeFPS_divisors_nonzero [of window1 2 fmt0 3]
  by (simp add: window1_fields setWindowTitle_def isOpen_def call_def fdiv_def to_double_def)

text \<open>
  C9. \<open>updateDisplay\<close> on a closed window: \<open>swapBuffer\<close> does nothing, and \<open>computeFPS\<close>,
  which does not look at \<open>isOpen\<close>, increments the counter and stores the clock reading;
  once a second has elapsed it resets the counter and stores the second clock reading in
  \<open>lastUpdate_\<close>. The call history is unchanged in both cases: the title update is dropped
  by the test in \<open>setWindowTitle\<close>.
\<close>

theorem updateDisplay_closed_counts:
  "\<not> isOpen w \<Longrightarrow>
   updateDisplay d env fmt t1 t2 w =
     (if 1 \<le> t1 - lastUpdate w
      then w\<lparr>fpsCount := 0, currentTime := t1, lastUpdate := t2\<rparr>
      else w\<lparr>fpsCount := fpsCount w + 1, currentTime := t1\<rparr>)"
  by (simp add: updateDisplay_def swapBuffer_def computeFPS_report computeFPS_below
        setWindowTitle_def isOpen_def)

theorem updateDisplay_closed_counts_witness:
  "\<not> isOpen window0 \<and>
   updateDisplay dirs0 pollKeep fmt0 (1 / 2) 7 window0 =
     window0\<lparr>fpsCount := 1, currentTime := 1 / 2\<rparr> \<and>
   updateDisplay dirs0 pollKeep fmt0 2 3 window0 =
     window0\<lparr>fpsCount := 0, currentTime := 2, lastUpdate := 3\<rparr>"
  using updateDisplay_closed_counts [of window0 dirs0 pollKeep fmt0 "1 / 2" 7]
    updateDisplay_closed_counts [of window0 dirs0 pollKeep fmt0 2 3]
  by (simp add: window0_def isOpen_def)

text \<open>
  C5, as stated, for every sequence of \<open>computeFPS\<close> calls: on the first call at which the
  elapsed time reaches one second the title is updated exactly once. On the closed window
  \<open>window0\<close> a call two seconds after the last update resets the counter and the time
  stamp, and makes no call to the library: the title is not updated.
\<close>

theorem computeFPS_closed_no_title_update:
  "\<not> isOpen window0 \<and> 1 \<le> 2 - lastUpdate window0 \<and>
   computeFPS fmt0 2 2 window0 = window0\<lparr>currentTime := 2, lastUpdate := 2\<rparr> \<and>
   calls (computeFPS fmt0 2 2 window0) = []"
  by (simp add: computeFPS_def Let_def setWindowTitle_def isOpen_def window0_def)

text \<open>
  C5, amended: for every sequence of \<open>computeFPS\<close> calls on an open window. As long as the
  clock readings stay less than one second after \<open>lastUpdate_\<close>, the calls only count and
  store the reading: the call history (hence the title) and the stored base title are
  unchanged. The first call whose reading is at least one second after \<open>lastUpdate_\<close> makes
  exactly one \<open>glfwSetWindowTitle\<close> call, with the text formatted from the stored base
  title, the frames per second (the counter divided by the elapsed time) and the
  milliseconds per frame (the elapsed milliseconds divided by the counter), and resets the
  counter to 0.
\<close>

theorem computeFPS_title_once_per_threshold:
  assumes opened: "m_window w = Some h"
    and below: "\<forall>(t1, t2) \<in> set ts. t1 - lastUpdate w < 1"
    and reached: "1 \<le> t1' - lastUpdate w"
  shows "computeFPS_calls fmt ts w =
           w\<lparr>fpsCount := fpsCount w + of_nat (length ts),
             currentTime := last (currentTime w # map fst ts)\<rparr> \<and>
         computeFPS_calls fmt (ts @ [(t1', t2')]) w =
           w\<lparr>fpsCount := 0, currentTime := t1', lastUpdate := t2',
             calls := calls w @
               [glfwSetWindowTitle (Some h)
                  (fmt (windowTitle w)
                     (Some (to_double (fpsCount w + of_nat (length ts) + 1)
                              / (t1' - lastUpdate w)))
                     (fdiv ((t1' - lastUpdate w) * 1000)
                        (to_double (fpsCount w + of_nat (length ts) + 1))))]\<rparr>"
proof
  show first: "computeFPS_calls fmt ts w =
           w\<lparr>fpsCount := fpsCount w + of_nat (length ts),
             currentTime := last (currentTime w # map fst ts)\<rparr>"
    by (rule computeFPS_calls_below [OF below])
  let ?w' = "w\<lparr>fpsCount := fpsCount w + of_nat (length ts),
               currentTime := last (currentTime w # map fst ts)\<rparr>"
  have reached': "1 \<le> t1' - lastUpdate ?w'" using reached by simp
  have nonzero: "t1' - lastUpdate w \<noteq> 0" using reached by simp
  have last_call: "computeFPS fmt t1' t2' ?w' =
           w\<lparr>fpsCount := 0, currentTime := t1', lastUpdate := t2',
             calls := calls w @
               [glfwSetWindowTitle (Some h)
                  (fmt (windowTitle w)
                     (Some (to_double (fpsCount w + of_nat (length ts) + 1)
                              / (t1' - lastUpdate w)))
                     (fdiv ((t1' - lastUpdate w) * 1000)
                        (to_double (fpsCount w + of_nat (length ts) + 1))))]\<rparr>"
    using opened nonzero
    by (simp add: computeFPS_report [OF reached'] setWindowTitle_def isOpen_def call_def
          fdiv_def [of _ "t1' - lastUpdate w"] del: last.simps)
  have "computeFPS_calls fmt (ts @ [(t1', t2')]) w = computeFPS fmt t1' t2' ?w'"
    by (simp only: computeFPS_calls_append first computeFPS_calls.simps)
  then show "computeFPS_calls fmt (ts @ [(t1', t2')]) w =
           w\<lparr>fpsCount := 0, currentTime := t1', lastUpdate := t2',
             calls := calls w @
               [glfwSetWindowTitle (Some h)
                  (fmt (windowTitle w)
                     (Some (to_double (fpsCount w + of_nat (length ts) + 1)
                              / (t1' - lastUpdate w)))
                     (fdiv ((t1' - lastUpdate w) * 1000)
                        (to_double (fpsCount w + of_nat (length ts) + 1))))]\<rparr>"
    by (simp only: last_call)
qed

theorem computeFPS_title_once_per_threshold_witness:
  "m_window window1 = Some 1 \<and>
   1 / 4 - lastUpdate window1 < 1 \<and> 1 / 2 - lastUpdate window1 < 1 \<and>
   3 / 4 - lastUpdate window1 < 1 \<and> 1 \<le> 5 / 4 - lastUpdate window1 \<and>
   computeFPS_calls fmt0 [(1 / 4, 0), (1 / 2, 0), (3 / 4, 0)] window1 =
     window1\<lparr>fpsCount := 3, currentTime := 3 / 4\<rparr> \<and>
   computeFPS_calls fmt0 [(1 / 4, 0), (1 / 2, 0), (3 / 4, 0), (5 / 4, 3 / 2)] window1 =
     window1\<lparr>fpsCount := 0, currentTime := 5 / 4, lastUpdate := 3 / 2,
       calls := calls window1 @
         [glfwSetWindowTitle (Some 1) (fmt0 ''Test'' (Some (16 / 5)) (Some (625 / 2)))]\<rparr>"
  using computeFPS_title_once_per_threshold
    [of window1 1 "[(1 / 4, 0), (1 / 2, 0), (3 / 4, 0)]" "5 / 4" fmt0 "3 / 2"]
  by (simp add: window1_fields fdiv_def to_double_def del: computeFPS_calls.simps)

subsection \<open>The key handler\<close>

lemma vadd_vscale_same: "vadd p (vscale v k) = p \<longleftrightarrow> k = 0 \<or> v = (0, 0, 0, 0)"
  by (cases p; cases v) auto

lemma m_window_handleKeyEvent: "m_window (handleKeyEvent d key action mods w) = m_window w"
  by (simp add: handleKeyEvent_def Let_def)

lemma key_R:
  "isOpen w \<Longrightarrow> action = GLFW_PRESS \<or> action = GLFW_REPEAT \<Longrightarrow>
   handleKeyEvent d GLFW_KEY_R action mods w =
     w\<lparr>m_camera := (m_camera w)\<lparr>eyePoint := (0, 0, 500, 1), yawAngle := 0, pitchAngle := 0\<rparr>\<rparr>"
  by (auto simp add: handleKeyEvent_def Let_def key_defs setEyePoint_def resetAngles_def)

lemma key_translate:
  assumes "isOpen w" and "action = GLFW_PRESS \<or> action = GLFW_REPEAT"
  shows "handleKeyEvent d GLFW_KEY_W action mods w =
           w\<lparr>m_camera := (m_camera w)\<lparr>eyePoint :=
              vadd (eyePoint (m_camera w)) (vscale (viewDirection d (m_camera w)) 10)\<rparr>\<rparr>"
    and "handleKeyEvent d GLFW_KEY_S action mods w =
           w\<lparr>m_camera := (m_camera w)\<lparr>eyePoint :=
              vadd (eyePoint (m_camera w)) (vscale (viewDirection d (m_camera w)) (- 10))\<rparr>\<rparr>"
    and "handleKeyEvent d GLFW_KEY_A action mods w =
           w\<lparr>m_camera := (m_camera w)\<lparr>eyePoint :=
              vadd (eyePoint (m_camera w)) (vscale (horizontalDirection d (m_camera w)) 10)\<rparr>\<rparr>"
    and "handleKeyEvent d GLFW_KEY_D action mods w =
           w\<lparr>m_camera := (m_camera w)\<lparr>eyePoint :=
              vadd (eyePoint (m_camera w)) (vscale (horizontalDirection d (m_camera w)) (- 10))\<rparr>\<rparr>"
    and "handleKeyEvent d GLFW_KEY_Q action mods w =
           w\<lparr>m_camera := (m_camera w)\<lparr>eyePoint :=
              vadd (eyePoint (m_camera w)) (vscale (upDirection d (m_camera w)) 10)\<rparr>\<rparr>"
    and "handleKeyEvent d GLFW_KEY_E action mods w =
           w\<lparr>m_camera := (m_camera w)\<lparr>eyePoint :=
              vadd (eyePoint (m_camera w)) (vscale (upDirection d (m_camera w)) (- 10))\<rparr>\<rparr>"
  using assms
  by (auto simp add: handleKeyEvent_def Let_def key_defs translateEyePoint_def)

lemma key_rotate:
  assumes "isOpen w" and "action = GLFW_PRESS \<or> action = GLFW_REPEAT"
  shows "handleKeyEvent d GLFW_KEY_LEFT action mods w =
           w\<lparr>m_camera := (m_camera w)\<lparr>yawAngle := yawAngle (m_camera w) + 5\<rparr>\<rparr>"
    and "handleKeyEvent d GLFW_KEY_RIGHT action mods w =
           w\<lparr>m_camera := (m_camera w)\<lparr>yawAngle := yawAngle (m_camera w) + (- 5)\<rparr>\<rparr>"
    and "handleKeyEvent d GLFW_KEY_UP action mods w =
           w\<lparr>m_camera := (m_camera w)\<lparr>pitchAngle := pitchAngle (m_camera w) + 5\<rparr>\<rparr>"
    and "handleKeyEvent d GLFW_KEY_DOWN action mods w =
           w\<lparr>m_camera := (m_camera w)\<lparr>pitchAngle := pitchAngle (m_camera w) + (- 5)\<rparr>\<rparr>"
  using assms
  by (auto simp add: handleKeyEvent_def Let_def key_defs rotateYaw_def rotatePitch_def)

lemma key_release: "handleKeyEvent d key GLFW_RELEASE mods w = w"
  by (simp add: handleKeyEvent_def action_defs)


text \<open>
  C7. On an open window, a press of the reset key sets the eye point to (0, 0, 500, 1) and
  both angles to 0, whatever the camera was; a press of the forward key followed by a press
  of the reset key leaves the eye point at (0, 0, 500, 1).
\<close>

theorem reset_key_restores_default:
  assumes opened: "isOpen w"
  shows "m_camera (handleKeyEvent d GLFW_KEY_R GLFW_PRESS mods w) =
           (m_camera w)\<lparr>eyePoint := (0, 0, 500, 1), yawAngle := 0, pitchAngle := 0\<rparr> \<and>
         eyePoint (m_camera (handleKeyEvent d GLFW_KEY_R GLFW_PRESS mods'
                     (handleKeyEvent d GLFW_KEY_W GLFW_PRESS mods w))) = (0, 0, 500, 1)"
proof -
  have after: "isOpen (handleKeyEvent d GLFW_KEY_W GLFW_PRESS mods w)"
    using opened by (simp add: isOpen_def m_window_handleKeyEvent)
  show ?thesis
    by (simp add: key_R [OF opened] key_R [OF after])
qed


theorem reset_key_restores_default_witness:
  "isOpen window1 \<and>
   eyePoint (m_camera (handleKeyEvent dirs0 GLFW_KEY_W GLFW_PRESS 0 window1)) = (0, 0, - 10, 1) \<and>
   yawAngle (m_camera window1) = 30 \<and>
   yawAngle (m_camera (handleKeyEvent dirs0 GLFW_KEY_R GLFW_PRESS 0 window1)) = 0 \<and>
   eyePoint (m_camera (handleKeyEvent dirs0 GLFW_KEY_R GLFW_PRESS 0
               (handleKeyEvent dirs0 GLFW_KEY_W GLFW_PRESS 0 window1))) = (0, 0, 500, 1)"
proof -
  have opened: "isOpen window1" by (simp add: isOpen_def window1_fields)
  have forward: "eyePoint (m_camera (handleKeyEvent dirs0 GLFW_KEY_W GLFW_PRESS 0 window1))
                   = (0, 0, - 10, 1)"
    by (simp add: key_translate(1) [OF opened] window1_fields camera0_def dirs0_def)
  from reset_key_restores_default [OF opened, of dirs0 0 0] opened forward
  show ?thesis by (simp add: window1_fields camera0_def)
qed

text \<open>
  C8. On an open window and for a press or a repeat, each movement or rotation key assigns
  one field of the camera and nothing else in the state: W, S, A, D, Q and E move the eye
  point by ten times the view, horizontal or up direction (so the eye point changes unless
  that direction is the zero vector), LEFT and RIGHT change the yaw angle by 5, UP and DOWN
  the pitch angle by 5. The source has these ten keys. A release changes nothing, whatever
  the key.
\<close>

theorem movement_keys_change_one_property:
  assumes opened: "isOpen w" and pressed: "action = GLFW_PRESS \<or> action = GLFW_REPEAT"
  shows
   "handleKeyEvent d GLFW_KEY_W action mods w =
      w\<lparr>m_camera := (m_camera w)\<lparr>eyePoint :=
         vadd (eyePoint (m_camera w)) (vscale (viewDirection d (m_camera w)) 10)\<rparr>\<rparr> \<and>
    handleKeyEvent d GLFW_KEY_S action mods w =
      w\<lparr>m_camera := (m_camera w)\<lparr>eyePoint :=
         vadd (eyePoint (m_camera w)) (vscale (viewDirection d (m_camera w)) (- 10))\<rparr>\<rparr> \<and>
    handleKeyEvent d GLFW_KEY_A action mods w =
      w\<lparr>m_camera := (m_camera w)\<lparr>eyePoint :=
         vadd (eyePoint (m_camera w)) (vscale (horizontalDirection d (m_camera w)) 10)\<rparr>\<rparr> \<and>
    handleKeyEvent d GLFW_KEY_D action mods w =
      w\<lparr>m_camera := (m_camera w)\<lparr>eyePoint :=
         vadd (eyePoint (m_camera w)) (vscale (horizontalDirection d (m_camera w)) (- 10))\<rparr>\<rparr> \<and>
    handleKeyEvent d GLFW_KEY_Q action mods w =
      w\<lparr>m_camera := (m_camera w)\<lparr>eyePoint :=
         vadd (eyePoint (m_camera w)) (vscale (upDirection d (m_camera w)) 10)\<rparr>\<rparr> \<and>
    handleKeyEvent d GLFW_KEY_E action mods w =
      w\<lparr>m_camera := (m_camera w)\<lparr>eyePoint :=
         vadd (eyePoint (m_camera w)) (vscale (upDirection d (m_camera w)) (- 10))\<rparr>\<rparr> \<and>
    handleKeyEvent d GLFW_KEY_LEFT action mods w =
      w\<lparr>m_camera := (m_camera w)\<lparr>yawAngle := yawAngle (m_camera w) + 5\<rparr>\<rparr> \<and>
    handleKeyEvent d GLFW_KEY_RIGHT action mods w =
      w\<lparr>m_camera := (m_camera w)\<lparr>yawAngle := yawAngle (m_camera w) + (- 5)\<rparr>\<rparr> \<and>
    handleKeyEvent d GLFW_KEY_UP action mods w =
      w\<lparr>m_camera := (m_camera w)\<lparr>pitchAngle := pitchAngle (m_camera w) + 5\<rparr>\<rparr> \<and>
    handleKeyEvent d GLFW_KEY_DOWN action mods w =
      w\<lparr>m_camera := (m_camera w)\<lparr>pitchAngle := pitchAngle (m_camera w) + (- 5)\<rparr>\<rparr> \<and>
    (eyePoint (m_camera (handleKeyEvent d GLFW_KEY_W action mods w)) = eyePoint (m_camera w)
       \<longleftrightarrow> viewDirection d (m_camera w) = (0, 0, 0, 0)) \<and>
    (eyePoint (m_camera (handleKeyEvent d GLFW_KEY_S action mods w)) = eyePoint (m_camera w)
       \<longleftrightarrow> viewDirection d (m_camera w) = (0, 0, 0, 0)) \<and>
    (eyePoint (m_camera (handleKeyEvent d GLFW_KEY_A action mods w)) = eyePoint (m_camera w)
       \<longleftrightarrow> horizontalDirection d (m_camera w) = (0, 0, 0, 0)) \<and>
    (eyePoint (m_camera (handleKeyEvent d GLFW_KEY_D action mods w)) = eyePoint (m_camera w)
       \<longleftrightarrow> horizontalDirection d (m_camera w) = (0, 0, 0, 0)) \<and>
    (eyePoint (m_camera (handleKeyEvent d GLFW_KEY_Q action mods w)) = eyePoint (m_camera w)
       \<longleftrightarrow> upDirection d (m_camera w) = (0, 0, 0, 0)) \<and>
    (eyePoint (m_camera (handleKeyEvent d GLFW_KEY_E action mods w)) = eyePoint (m_camera w)
       \<longleftrightarrow> upDirection d (m_camera w) = (0, 0, 0, 0)) \<and>
    yawAngle (m_camera (handleKeyEvent d GLFW_KEY_LEFT action mods w)) \<noteq> yawAngle (m_camera w) \<and>
    yawAngle (m_camera (handleKeyEvent d GLFW_KEY_RIGHT action mods w)) \<noteq> yawAngle (m_camera w) \<and>
    pitchAngle (m_camera (handleKeyEvent d GLFW_KEY_UP action mods w)) \<noteq> pitchAngle (m_camera w) \<and>
    pitchAngle (m_camera (handleKeyEvent d GLFW_KEY_DOWN action mods w)) \<noteq> pitchAngle (m_camera w) \<and>
    handleKeyEvent d key GLFW_RELEASE mods w = w"
  by (simp add: key_translate [OF opened pressed] key_rotate [OF opened pressed] key_release
        vadd_vscale_same)

theorem movement_keys_change_one_property_witness:
  "isOpen window1 \<and> (GLFW_PRESS = GLFW_PRESS \<or> GLFW_PRESS = GLFW_REPEAT) \<and>
   m_camera window1 = camera0\<lparr>windowWidth := 800, windowHeight := 600\<rparr> \<and>
   m_camera (handleKeyEvent dirs0 GLFW_KEY_W GLFW_PRESS 0 window1) =
     camera0\<lparr>windowWidth := 800, windowHeight := 600, eyePoint := (0, 0, - 10, 1)\<rparr> \<and>
   m_camera (handleKeyEvent dirs0 GLFW_KEY_LEFT GLFW_PRESS 0 window1) =
     camera0\<lparr>windowWidth := 800, windowHeight := 600, yawAngle := 35\<rparr> \<and>
   m_camera (handleKeyEvent dirs0 GLFW_KEY_DOWN GLFW_PRESS 0 window1) =
     camera0\<lparr>windowWidth := 800, windowHeight := 600, pitchAngle := 5\<rparr> \<and>
   handleKeyEvent dirs0 GLFW_KEY_W GLFW_RELEASE 0 window1 = window1"
proof -
  have opened: "isOpen window1" by (simp add: isOpen_def window1_fields)
  from movement_keys_change_one_property
         [OF opened, of GLFW_PRESS dirs0 0 GLFW_KEY_W] opened
  show ?thesis by (simp add: window1_fields camera0_def dirs0_def)
qed

end
